theory Spec2Isabelle
  imports Complex_Main "HOL-Library.Sublist" "HOL-Library.AList"
begin

section \<open>Python values and the built-in operations the pipeline relies on\<close>

text \<open>
  The pipeline of \<^verbatim>\<open>backend/ai_engine.py\<close> works on whatever \<^verbatim>\<open>json.loads\<close> returns, so the
  model carries the full range of JSON-derived Python values.  Strings are byte lists holding
  UTF-8; a Python \<^verbatim>\<open>str\<close> is read as the list of its code points by \<open>utf8_chars\<close>.
  A \<^verbatim>\<open>dict\<close> is an association list in insertion order (keys are strings, as JSON has them).
  A float is kept by its exact value; negative zero and the three non-finite values are separate
  constructors.
\<close>

datatype pyfloat = Finite rat | NegZero | PosInf | NegInf | NaN

datatype pyval =
    PyNone
  | PyBool bool
  | PyInt int
  | PyFloat pyfloat
  | PyStr string
  | PyList "pyval list"
  | PyDict "(string \<times> pyval) list"

text \<open>
  Exceptions are values.  \<open>ExceptionFrom p e\<close> is \<^verbatim>\<open>Exception(p + str(e))\<close>, the shape every
  \<^verbatim>\<open>except Exception as e: raise Exception(f"...: {str(e)}")\<close> handler of the module produces.
\<close>

datatype error =
    JSONDecodeError
  | ValueError string
  | TypeError
  | KeyError
  | IndexError
  | AttributeError
  | RecursionError
  | CapabilityError string
  | Exception string
  | ExceptionFrom string error

text \<open>Numeric value shared by \<^verbatim>\<open>bool\<close>, \<^verbatim>\<open>int\<close> and \<^verbatim>\<open>float\<close>: \<^verbatim>\<open>True == 1 == 1.0\<close>.\<close>

fun num_val :: "pyval \<Rightarrow> pyfloat option" where
  "num_val (PyBool b) = Some (Finite (if b then 1 else 0))"
| "num_val (PyInt i) = Some (Finite (of_int i))"
| "num_val (PyFloat NegZero) = Some (Finite 0)"
| "num_val (PyFloat f) = Some f"
| "num_val _ = None"

text \<open>
  Equality as containers apply it to their items (\<^verbatim>\<open>x is y or x == y\<close>).  The only NaN that
  \<^verbatim>\<open>json.loads\<close> can produce is the one shared constant of the \<^verbatim>\<open>json\<close> module, so inside a
  container test NaN matches NaN by identity.
\<close>

fun py_eq :: "pyval \<Rightarrow> pyval \<Rightarrow> bool" where
  "py_eq (PyList xs) (PyList ys) = list_all2 py_eq xs ys"
| "py_eq (PyDict a) (PyDict b) =
     (length a = length b \<and>
      list_all (\<lambda>kv. case map_of b (fst kv) of None \<Rightarrow> False | Some w \<Rightarrow> py_eq (snd kv) w) a)"
| "py_eq (PyStr s) (PyStr t) = (s = t)"
| "py_eq PyNone PyNone = True"
| "py_eq x y = (case (num_val x, num_val y) of (Some p, Some q) \<Rightarrow> p = q | _ \<Rightarrow> False)"

text \<open>The operator \<^verbatim>\<open>x == y\<close> itself: no identity shortcut at the top, so NaN differs from NaN.\<close>

definition py_eq_op :: "pyval \<Rightarrow> pyval \<Rightarrow> bool" where
  "py_eq_op x y = (if x = PyFloat NaN \<or> y = PyFloat NaN then False else py_eq x y)"

text \<open>\<^verbatim>\<open>x in xs\<close> for a list \<open>xs\<close>.\<close>

definition py_in :: "pyval \<Rightarrow> pyval list \<Rightarrow> bool" where
  "py_in x xs = list_ex (\<lambda>y. py_eq y x) xs"

text \<open>\<^verbatim>\<open>str(n)\<close> for an \<^verbatim>\<open>int\<close>.\<close>

definition digit_char :: "nat \<Rightarrow> char" where
  "digit_char d = ''0123456789'' ! d"

fun str_nat :: "nat \<Rightarrow> string" where
  "str_nat n = (if n < 10 then [digit_char n] else str_nat (n div 10) @ [digit_char (n mod 10)])"

declare str_nat.simps [simp del]

definition str_int :: "int \<Rightarrow> string" where
  "str_int i = (if i < 0 then ''-'' @ str_nat (nat (- i)) else str_nat (nat i))"

text \<open>\<^verbatim>\<open>k in s\<close> for two strings: \<open>k\<close> occurs in \<open>s\<close> as a contiguous piece.\<close>

fun is_substring :: "string \<Rightarrow> string \<Rightarrow> bool" where
  "is_substring k [] = (k = [])"
| "is_substring k (c # cs) = (prefix k (c # cs) \<or> is_substring k cs)"

text \<open>The code points of a UTF-8 string: a lead byte with the continuation bytes after it.\<close>

definition is_cont :: "char \<Rightarrow> bool" where
  "is_cont c = (0x80 \<le> (of_char c :: nat) \<and> (of_char c :: nat) < 0xC0)"

function utf8_chars :: "string \<Rightarrow> string list" where
  "utf8_chars [] = []"
| "utf8_chars (c # cs) = (c # takeWhile is_cont cs) # utf8_chars (dropWhile is_cont cs)"
  by pat_completeness auto
termination
  by (relation "measure length") (auto simp: less_Suc_eq_le length_dropWhile_le)

text \<open>Iteration (\<^verbatim>\<open>for x in v\<close>): a list gives its items, a dict its keys, a string its characters.\<close>

fun py_iter :: "pyval \<Rightarrow> error + pyval list" where
  "py_iter (PyList xs) = Inr xs"
| "py_iter (PyDict kvs) = Inr (map (\<lambda>kv. PyStr (fst kv)) kvs)"
| "py_iter (PyStr s) = Inr (map PyStr (utf8_chars s))"
| "py_iter _ = Inl TypeError"

text \<open>\<^verbatim>\<open>len(v)\<close>.\<close>

fun py_len :: "pyval \<Rightarrow> error + nat" where
  "py_len (PyList xs) = Inr (length xs)"
| "py_len (PyDict kvs) = Inr (length kvs)"
| "py_len (PyStr s) = Inr (length (utf8_chars s))"
| "py_len _ = Inl TypeError"

text \<open>\<^verbatim>\<open>key in v\<close> for a string key.\<close>

fun py_contains :: "pyval \<Rightarrow> string \<Rightarrow> error + bool" where
  "py_contains (PyDict kvs) key = Inr (map_of kvs key \<noteq> None)"
| "py_contains (PyList xs) key = Inr (py_in (PyStr key) xs)"
| "py_contains (PyStr s) key = Inr (is_substring key s)"
| "py_contains _ key = Inl TypeError"

text \<open>\<^verbatim>\<open>v[key]\<close> for a string key: only a dict can be indexed by a string.\<close>

fun py_getitem :: "pyval \<Rightarrow> string \<Rightarrow> error + pyval" where
  "py_getitem (PyDict kvs) key = (case map_of kvs key of None \<Rightarrow> Inl KeyError | Some v \<Rightarrow> Inr v)"
| "py_getitem _ key = Inl TypeError"

text \<open>\<^verbatim>\<open>v[key] = x\<close>: a present key keeps its place, a new key goes to the end.\<close>

fun py_setitem :: "pyval \<Rightarrow> string \<Rightarrow> pyval \<Rightarrow> error + pyval" where
  "py_setitem (PyDict kvs) key x = Inr (PyDict (AList.update key x kvs))"
| "py_setitem _ key x = Inl TypeError"

text \<open>
  \<^verbatim>\<open>xs[:n]\<close>.  A negative \<open>n\<close> counts from the end.  Slicing a dict raises (TypeError up to
  Python 3.11, KeyError from 3.12 on; neither is a ValueError).
\<close>

definition py_take :: "int \<Rightarrow> 'a list \<Rightarrow> 'a list" where
  "py_take n xs = (if 0 \<le> n then take (nat n) xs else take (nat (int (length xs) + n)) xs)"

fun py_slice_to :: "pyval \<Rightarrow> int \<Rightarrow> error + pyval" where
  "py_slice_to (PyList xs) n = Inr (PyList (py_take n xs))"
| "py_slice_to (PyStr s) n = Inr (PyStr (concat (py_take n (utf8_chars s))))"
| "py_slice_to _ n = Inl TypeError"

section \<open>The environment: the completion capability and the Python library\<close>

text \<open>
  A response object of the capability, by the attributes the code asks for: an object that may
  have a \<^verbatim>\<open>content\<close> attribute and may have a \<^verbatim>\<open>generations\<close> attribute (a list of lists of
  generations, each with its \<^verbatim>\<open>text\<close>), or a plain list of items that may have \<^verbatim>\<open>content\<close>.
\<close>

datatype llm_response =
    RObject "string option" "string list list option"
  | RList "string option list"

text \<open>
  What lies outside the repository is a parameter.  \<open>llm_init\<close> is the outcome of constructing
  the client (\<open>Some e\<close>: the constructor raised \<open>e\<close>); \<open>llm_call k prompt\<close> is the outcome of the
  invocation made when \<open>k\<close> invocations have been made before; \<open>json_loads\<close> is
  \<^verbatim>\<open>json.loads\<close> (\<open>Inl e\<close>: it raised \<open>e\<close>, which is JSONDecodeError for most invalid texts,
  another ValueError for an integer literal beyond the digit limit, and RecursionError for a
  text nested deeper than the interpreter's recursion limit, valid or not); \<open>py_repr\<close> is \<^verbatim>\<open>repr\<close>, used for the
  values whose \<^verbatim>\<open>str\<close> is their \<^verbatim>\<open>repr\<close>.
\<close>

record env =
  llm_init :: "error option"
  llm_call :: "nat \<Rightarrow> string \<Rightarrow> error + llm_response"
  json_loads :: "string \<Rightarrow> error + pyval"
  py_repr :: "pyval \<Rightarrow> string"

text \<open>\<^verbatim>\<open>str(v)\<close>, as an f-string field applies it.\<close>

fun py_str :: "env \<Rightarrow> pyval \<Rightarrow> string" where
  "py_str E (PyStr s) = s"
| "py_str E PyNone = ''None''"
| "py_str E (PyBool b) = (if b then ''True'' else ''False'')"
| "py_str E (PyInt i) = str_int i"
| "py_str E v = py_repr E v"

definition get_llm :: "env \<Rightarrow> error + unit" where
  "get_llm E = (case llm_init E of
      Some e \<Rightarrow> Inl (ExceptionFrom ''Failed to initialize AI model: '' e)
    | None \<Rightarrow> Inr ())"

section \<open>Tutoring response generator\<close>

definition create_tutoring_prompt ::
  "string \<Rightarrow> string \<Rightarrow> string \<Rightarrow> string \<Rightarrow> string \<Rightarrow> string \<Rightarrow> string" where
  \<open>create_tutoring_prompt subject level question learning_style background language =
     ''\<newline>'' @
     ''Subject: '' @ subject @ ''\<newline>'' @
     ''Learning Level: '' @ level @ ''\<newline>'' @
     ''Background Knowledge: '' @ background @ ''\<newline>'' @
     ''Learning Style Preference: '' @ learning_style @ ''\<newline>'' @
     ''Language Preference: '' @ language @ ''\<newline>'' @
     ''\<newline>'' @
     ''QUESTION:\<newline>'' @ question @ ''\<newline>'' @
     ''\<newline>'' @
     ''INSTRUCTIONS:\<newline>'' @
     ''1. Provide a clear, educational explanation that directly addresses the question\<newline>'' @
     ''2. Tailor your explanation to a '' @ background @ '' student at '' @ level @ '' level\<newline>'' @
     ''3. Use '' @ language @ '' as the primary language\<newline>'' @
     ''4. Format your response with appropriate markdown for readability\<newline>'' @
     ''\<newline>'' @
     ''LEARNING STYLE ADAPTATIONS:\<newline>'' @
     ''- For Visual learners: Include descriptions of visual concepts, diagrams, or mental models\<newline>'' @
     ''- For Text-based learners: Provide clear, structured explanations with defined concepts\<newline>'' @
     ''- For Hands-on learners: Include practical examples, exercises, or applications\<newline>'' @
     ''\<newline>'' @
     ''Your explanation should be educational, accurate, and engaging.\<newline>''\<close>

definition visual_suffix :: string where
  "visual_suffix =
     ''\<newline>\<newline>'' @ [CHR 0xF0, CHR 0x9F, CHR 0x93, CHR 0x9D] @
     '' *Note: Visualize these concepts as you read for better retention.*''"

definition hands_on_suffix :: string where
  "hands_on_suffix =
     ''\<newline>\<newline>'' @ [CHR 0xF0, CHR 0x9F, CHR 0x9B, CHR 0xA0, CHR 0xEF, CHR 0xB8, CHR 0x8F] @
     '' *Tip: Try working through the examples yourself to reinforce your learning.*''"

definition format_tutoring_response :: "string \<Rightarrow> string \<Rightarrow> string" where
  "format_tutoring_response content learning_style =
     (if learning_style = ''Visual'' then content @ visual_suffix
      else if learning_style = ''Hands-on'' then content @ hands_on_suffix
      else content)"

text \<open>
  The \<^verbatim>\<open>if/elif\<close> chain that reads the text out of the response.  \<open>Inr None\<close> is the local
  \<^verbatim>\<open>content\<close> still being \<^verbatim>\<open>None\<close>; indexing an empty list raises IndexError.
\<close>

fun extract_content :: "llm_response \<Rightarrow> error + string option" where
  "extract_content (RObject (Some c) gens) = Inr (Some c)"
| "extract_content (RObject None (Some [])) = Inl IndexError"
| "extract_content (RObject None (Some ([] # rest))) = Inl IndexError"
| "extract_content (RObject None (Some ((t # ts) # rest))) = Inr (Some t)"
| "extract_content (RObject None None) = Inr None"
| "extract_content (RList []) = Inl IndexError"
| "extract_content (RList (Some c # items)) = Inr (Some c)"
| "extract_content (RList (None # items)) = Inr None"

text \<open>
  The body of the \<^verbatim>\<open>try\<close> block.  The second component of the result is the number of
  capability invocations made so far.
\<close>

definition tutoring_try ::
  "env \<Rightarrow> string \<Rightarrow> string \<Rightarrow> string \<Rightarrow> string \<Rightarrow> string \<Rightarrow> string \<Rightarrow> nat \<Rightarrow> (error + string) \<times> nat" where
  "tutoring_try E subject level question learning_style background language k =
     (let prompt = create_tutoring_prompt subject level question learning_style background language in
      case get_llm E of
        Inl e \<Rightarrow> (Inl e, k)
      | Inr _ \<Rightarrow>
         (case llm_call E k prompt of
            Inl e \<Rightarrow> (Inl e, Suc k)
          | Inr response \<Rightarrow>
             (case extract_content response of
                Inl e \<Rightarrow> (Inl e, Suc k)
              | Inr None \<Rightarrow> (Inl (Exception ''LLM returned no usable response content.''), Suc k)
              | Inr (Some content) \<Rightarrow>
                 if content = [] then (Inl (Exception ''LLM returned no usable response content.''), Suc k)
                 else (Inr (format_tutoring_response content learning_style), Suc k))))"

definition generate_tutoring_response ::
  "env \<Rightarrow> string \<Rightarrow> string \<Rightarrow> string \<Rightarrow> string \<Rightarrow> string \<Rightarrow> string \<Rightarrow> nat \<Rightarrow> (error + string) \<times> nat" where
  "generate_tutoring_response E subject level question learning_style background language k =
     (case tutoring_try E subject level question learning_style background language k of
        (Inl e, k') \<Rightarrow> (Inl (ExceptionFrom ''Failed to generate tutoring response: '' e), k')
      | (Inr text, k') \<Rightarrow> (Inr text, k'))"

section \<open>Quiz generation and validation pipeline\<close>

text \<open>
  The functions keep their names from \<^verbatim>\<open>ai_engine.py\<close>, without the leading underscore of the
  private ones.  A loop is the recursive function over the items that applies the loop body,
  which has a definition of its own.
\<close>

definition create_quiz_prompt :: "string \<Rightarrow> string \<Rightarrow> int \<Rightarrow> string" where
  \<open>create_quiz_prompt subject level num_questions =
     ''\<newline>'' @
     ''You are a quiz generator.\<newline>'' @
     ''\<newline>'' @
     ''Generate a quiz on the subject **'' @ subject @ ''** at **'' @ level @ ''** level.\<newline>'' @
     ''\<newline>'' @
     ''Instructions:\<newline>'' @
     ''1. Generate **'' @ str_int num_questions @ ''** multiple-choice questions (MCQs).\<newline>'' @
     ''2. Each question must have exactly 4 answer options (A, B, C, D).\<newline>'' @
     ''3. Clearly indicate the correct answer.\<newline>'' @
     ''4. Cover diverse aspects of '' @ subject @ ''.\<newline>'' @
     ''\<newline>'' @
     ''FORMAT YOUR RESPONSE AS JSON:\<newline>'' @
     ''[\<newline>'' @
     ''    {\<newline>'' @
     ''        "question": "Question text",\<newline>'' @
     ''        "options": ["Option A", "Option B", "Option C", "Option D"],\<newline>'' @
     ''        "correct_answer": "Option A",\<newline>'' @
     ''        "explanation": "Brief explanation of why this answer is correct"\<newline>'' @
     ''    },\<newline>'' @
     ''    ...\<newline>'' @
     '']\<newline>'' @
     ''\<newline>'' @
     ''IMPORTANT:\<newline>'' @
     ''- Make sure to return valid JSON that can be parsed.\<newline>'' @
     ''- Do not include any text outside the JSON array.\<newline>'' @
     ''- Include a brief explanation for each correct answer.\<newline>''\<close>

text \<open>One entry of the fallback quiz, for the loop index \<open>i\<close> of \<^verbatim>\<open>range(num_questions)\<close>.\<close>

definition fallback_question :: "string \<Rightarrow> nat \<Rightarrow> pyval" where
  "fallback_question subject i = PyDict
     [(''question'', PyStr (''Sample '' @ subject @ '' question '' @ str_int (int i + 1))),
      (''options'', PyList [PyStr ''Option A'', PyStr ''Option B'', PyStr ''Option C'', PyStr ''Option D'']),
      (''correct_answer'', PyStr ''Option A''),
      (''explanation'', PyStr ''This is a fallback explanation.'')]"

text \<open>\<^verbatim>\<open>range(n)\<close> is empty for \<open>n \<le> 0\<close>.\<close>

definition create_fallback_quiz :: "string \<Rightarrow> int \<Rightarrow> pyval" where
  "create_fallback_quiz subject num_questions =
     PyList (map (fallback_question subject) [0..<nat num_questions])"

text \<open>\<^verbatim>\<open>all(key in question for key in keys)\<close>: stops at the first absent key, raises where \<^verbatim>\<open>in\<close> does.\<close>

fun all_keys_in :: "pyval \<Rightarrow> string list \<Rightarrow> error + bool" where
  "all_keys_in question [] = Inr True"
| "all_keys_in question (key # keys) =
     (case py_contains question key of
        Inl e \<Rightarrow> Inl e
      | Inr False \<Rightarrow> Inr False
      | Inr True \<Rightarrow> all_keys_in question keys)"

text \<open>The body of the validation loop, for one item.\<close>

definition validate_question :: "pyval \<Rightarrow> error + unit" where
  "validate_question question =
     (case all_keys_in question [''question'', ''options'', ''correct_answer''] of
        Inl e \<Rightarrow> Inl e
      | Inr False \<Rightarrow> Inl (ValueError ''Each quiz item must have question, options, and correct_answer'')
      | Inr True \<Rightarrow>
         (case py_getitem question ''options'' of
            Inl e \<Rightarrow> Inl e
          | Inr (PyList opts) \<Rightarrow>
             if length opts \<noteq> 4 then Inl (ValueError ''Each question must have exactly 4 options'')
             else (case py_getitem question ''correct_answer'' of
                     Inl e \<Rightarrow> Inl e
                   | Inr answer \<Rightarrow>
                      if \<not> py_in answer opts
                      then Inl (ValueError ''The correct answer must be one of the options'')
                      else Inr ())
          | Inr _ \<Rightarrow> Inl (ValueError ''Each question must have exactly 4 options'')))"

fun validate_items :: "pyval list \<Rightarrow> error + unit" where
  "validate_items [] = Inr ()"
| "validate_items (question # rest) =
     (case validate_question question of Inl e \<Rightarrow> Inl e | Inr _ \<Rightarrow> validate_items rest)"

definition validate_quiz_data :: "pyval \<Rightarrow> error + unit" where
  "validate_quiz_data quiz_data =
     (case py_iter quiz_data of Inl e \<Rightarrow> Inl e | Inr items \<Rightarrow> validate_items items)"

text \<open>The body of the back-filling loop, for one item: the item as the loop leaves it.\<close>

definition backfill_question :: "env \<Rightarrow> pyval \<Rightarrow> error + pyval" where
  "backfill_question E question =
     (case py_contains question ''explanation'' of
        Inl e \<Rightarrow> Inl e
      | Inr True \<Rightarrow> Inr question
      | Inr False \<Rightarrow>
         (case py_getitem question ''correct_answer'' of
            Inl e \<Rightarrow> Inl e
          | Inr answer \<Rightarrow>
             py_setitem question ''explanation''
               (PyStr (''The correct answer is '' @ py_str E answer @ ''.''))))"

fun backfill_items :: "env \<Rightarrow> pyval list \<Rightarrow> error + pyval list" where
  "backfill_items E [] = Inr []"
| "backfill_items E (question # rest) =
     (case backfill_question E question of
        Inl e \<Rightarrow> Inl e
      | Inr q \<Rightarrow> (case backfill_items E rest of Inl e \<Rightarrow> Inl e | Inr qs \<Rightarrow> Inr (q # qs)))"

text \<open>
  The loop over \<^verbatim>\<open>quiz_data\<close>.  The items of a list are the dicts it holds, updated in place;
  the items of a dict or of a string are strings, which no assignment can change.
\<close>

definition backfill_all :: "env \<Rightarrow> pyval \<Rightarrow> error + pyval" where
  "backfill_all E quiz_data =
     (case quiz_data of
        PyList items \<Rightarrow>
          (case backfill_items E items of Inl e \<Rightarrow> Inl e | Inr qs \<Rightarrow> Inr (PyList qs))
      | _ \<Rightarrow>
          (case py_iter quiz_data of
             Inl e \<Rightarrow> Inl e
           | Inr items \<Rightarrow>
              (case backfill_items E items of Inl e \<Rightarrow> Inl e | Inr _ \<Rightarrow> Inr quiz_data)))"

text \<open>The \<^verbatim>\<open>try\<close> block of \<^verbatim>\<open>_parse_quiz_response\<close> after \<^verbatim>\<open>json.loads\<close> has returned.\<close>

definition parse_try :: "env \<Rightarrow> pyval \<Rightarrow> int \<Rightarrow> error + pyval" where
  "parse_try E quiz_data num_questions =
     (case validate_quiz_data quiz_data of
        Inl e \<Rightarrow> Inl e
      | Inr _ \<Rightarrow>
         (case py_len quiz_data of
            Inl e \<Rightarrow> Inl e
          | Inr n \<Rightarrow>
             (case (if int n > num_questions then py_slice_to quiz_data num_questions
                    else Inr quiz_data) of
                Inl e \<Rightarrow> Inl e
              | Inr truncated \<Rightarrow> backfill_all E truncated)))"

text \<open>
  \<^verbatim>\<open>except (json.JSONDecodeError, ValueError)\<close>: these two are caught, every other exception
  passes, whether \<^verbatim>\<open>json.loads\<close> raised it or a later statement of the \<^verbatim>\<open>try\<close> block.
\<close>

fun is_caught :: "error \<Rightarrow> bool" where
  "is_caught JSONDecodeError = True"
| "is_caught (ValueError msg) = True"
| "is_caught _ = False"

definition parse_quiz_response :: "env \<Rightarrow> string \<Rightarrow> string \<Rightarrow> int \<Rightarrow> error + pyval" where
  "parse_quiz_response E response_content subject num_questions =
     (case json_loads E response_content of
        Inl e \<Rightarrow> if is_caught e then Inr (create_fallback_quiz subject num_questions) else Inl e
      | Inr quiz_data \<Rightarrow>
         (case parse_try E quiz_data num_questions of
            Inl e \<Rightarrow> if is_caught e then Inr (create_fallback_quiz subject num_questions) else Inl e
          | Inr result \<Rightarrow> Inr result))"

text \<open>\<^verbatim>\<open>response.content\<close>: an attribute read, AttributeError where the attribute is absent.\<close>

fun response_content :: "llm_response \<Rightarrow> error + string" where
  "response_content (RObject (Some c) gens) = Inr c"
| "response_content _ = Inl AttributeError"

definition generate_quiz_data :: "env \<Rightarrow> string \<Rightarrow> string \<Rightarrow> int \<Rightarrow> nat \<Rightarrow> (error + pyval) \<times> nat" where
  "generate_quiz_data E subject level num_questions k =
     (let prompt = create_quiz_prompt subject level num_questions in
      case get_llm E of
        Inl e \<Rightarrow> (Inl e, k)
      | Inr _ \<Rightarrow>
         (case llm_call E k prompt of
            Inl e \<Rightarrow> (Inl e, Suc k)
          | Inr response \<Rightarrow>
             (case response_content response of
                Inl e \<Rightarrow> (Inl e, Suc k)
              | Inr content \<Rightarrow> (parse_quiz_response E content subject num_questions, Suc k))))"

section \<open>Quiz renderer\<close>

definition html_head :: string where
  \<open>html_head =
     ''\<newline>'' @
     ''    <html>\<newline>'' @
     ''    <head>\<newline>'' @
     ''        <style>\<newline>'' @
     ''            body {\<newline>'' @
     ''                font-family: 'Segoe UI', Tahoma, Geneva, Verdana, sans-serif;\<newline>'' @
     ''                background-color: #f2f4f8;\<newline>'' @
     ''                color: #333;\<newline>'' @
     ''                padding: 20px;\<newline>'' @
     ''            }\<newline>'' @
     ''\<newline>'' @
     ''            .quiz-card {\<newline>'' @
     ''                background-color: #fff;\<newline>'' @
     ''                border-radius: 12px;\<newline>'' @
     ''                box-shadow: 0 4px 10px rgba(0,0,0,0.1);\<newline>'' @
     ''                margin: 20px auto;\<newline>'' @
     ''                padding: 20px;\<newline>'' @
     ''                max-width: 700px;\<newline>'' @
     ''                transition: transform 0.3s;\<newline>'' @
     ''            }\<newline>'' @
     ''\<newline>'' @
     ''            .quiz-card:hover {\<newline>'' @
     ''                transform: scale(1.01);\<newline>'' @
     ''            }\<newline>'' @
     ''\<newline>'' @
     ''            .question {\<newline>'' @
     ''                font-size: 18px;\<newline>'' @
     ''                font-weight: bold;\<newline>'' @
     ''            }\<newline>'' @
     ''\<newline>'' @
     ''            .option {\<newline>'' @
     ''                padding: 10px 14px;\<newline>'' @
     ''                margin: 8px 0;\<newline>'' @
     ''                border-radius: 8px;\<newline>'' @
     ''                border: 1px solid #ccc;\<newline>'' @
     ''                cursor: pointer;\<newline>'' @
     ''                transition: background-color 0.3s, transform 0.2s;\<newline>'' @
     ''            }\<newline>'' @
     ''\<newline>'' @
     ''            .option:hover {\<newline>'' @
     ''                background-color: #f0f0f0;\<newline>'' @
     ''                transform: scale(1.02);\<newline>'' @
     ''            }\<newline>'' @
     ''\<newline>'' @
     ''            .selected-correct {\<newline>'' @
     ''                background-color: #c8f7c5;\<newline>'' @
     ''                border-color: #28a745;\<newline>'' @
     ''                font-weight: bold;\<newline>'' @
     ''            }\<newline>'' @
     ''\<newline>'' @
     ''            .selected-incorrect {\<newline>'' @
     ''                background-color: #f8d7da;\<newline>'' @
     ''                border-color: #dc3545;\<newline>'' @
     ''            }\<newline>'' @
     ''\<newline>'' @
     ''            .answer {\<newline>'' @
     ''                margin-top: 12px;\<newline>'' @
     ''                padding: 12px;\<newline>'' @
     ''                background-color: #e9ecef;\<newline>'' @
     ''                border-left: 5px solid #007bff;\<newline>'' @
     ''                display: none;\<newline>'' @
     ''                border-radius: 8px;\<newline>'' @
     ''            }\<newline>'' @
     ''        </style>\<newline>'' @
     ''        <script>\<newline>'' @
     ''            function handleAnswerSelection(isCorrect, selectedOption, questionNum) {\<newline>'' @
     ''                if (isCorrect) {\<newline>'' @
     ''                    selectedOption.className += ' selected-correct';\<newline>'' @
     ''                } else {\<newline>'' @
     ''                    selectedOption.className += ' selected-incorrect';\<newline>'' @
     ''                    revealAnswer(questionNum);\<newline>'' @
     ''                }\<newline>'' @
     ''            }\<newline>'' @
     ''\<newline>'' @
     ''            function revealAnswer(questionNum) {\<newline>'' @
     ''                const answerDiv = document.getElementById("answer-" + questionNum);\<newline>'' @
     ''                answerDiv.style.display = 'block';\<newline>'' @
     ''                answerDiv.scrollIntoView({ behavior: 'smooth', block: 'nearest' });\<newline>'' @
     ''\<newline>'' @
     ''                answerDiv.animate([\<newline>'' @
     ''                    { transform: 'scale(1.05)', opacity: 1 },\<newline>'' @
     ''                    { transform: 'scale(1)', opacity: 1 }\<newline>'' @
     ''                ], {\<newline>'' @
     ''                    duration: 800,\<newline>'' @
     ''                    iterations: 1\<newline>'' @
     ''                });\<newline>'' @
     ''            }\<newline>'' @
     ''        </script>\<newline>'' @
     ''    </head>\<newline>'' @
     ''    <body>\<newline>'' @
     ''    <h2>'' @ [CHR 0xF0, CHR 0x9F, CHR 0xA7, CHR 0xA0] @ '' Interactive Quiz</h2>\<newline>'' @
     ''    ''\<close>

definition html_tail :: string where
  \<open>html_tail =
     ''\<newline>'' @
     ''    </body>\<newline>'' @
     ''    </html>\<newline>'' @
     ''    ''\<close>

text \<open>\<^verbatim>\<open>str(option == question['correct_answer']).lower()\<close>.\<close>

definition is_correct_str :: "pyval \<Rightarrow> pyval \<Rightarrow> string" where
  "is_correct_str option answer = (if py_eq_op option answer then ''true'' else ''false'')"

text \<open>The markup of one option of question number \<open>i + 1\<close>.\<close>

definition render_option :: "env \<Rightarrow> nat \<Rightarrow> pyval \<Rightarrow> pyval \<Rightarrow> error + string" where
  \<open>render_option E i question option =
     (case py_getitem question ''correct_answer'' of
        Inl e \<Rightarrow> Inl e
      | Inr answer \<Rightarrow> Inr (
     ''\<newline>'' @
     ''                <div class='option' onclick="handleAnswerSelection('' @ is_correct_str option answer @
     '', this, '' @ str_int (int i + 1) @
     '')">\<newline>'' @
     ''                    '' @ py_str E option @
     ''\<newline>'' @
     ''                </div>\<newline>'' @
     ''            ''))\<close>

fun render_options :: "env \<Rightarrow> nat \<Rightarrow> pyval \<Rightarrow> pyval list \<Rightarrow> error + string" where
  "render_options E i question [] = Inr []"
| "render_options E i question (option # rest) =
     (case render_option E i question option of
        Inl e \<Rightarrow> Inl e
      | Inr s \<Rightarrow> (case render_options E i question rest of Inl e \<Rightarrow> Inl e | Inr t \<Rightarrow> Inr (s @ t)))"

text \<open>The opening of a card, up to the options.\<close>

definition render_open :: "env \<Rightarrow> nat \<Rightarrow> pyval \<Rightarrow> error + string" where
  \<open>render_open E i question =
     (case py_getitem question ''question'' of
        Inl e \<Rightarrow> Inl e
      | Inr text \<Rightarrow> Inr (
     ''\<newline>'' @
     ''        <div class='quiz-card'>\<newline>'' @
     ''            <div class='question'>Q'' @ str_int (int i + 1) @
     '': '' @ py_str E text @
     ''</div>\<newline>'' @
     ''            <div class='options'>\<newline>'' @
     ''        ''))\<close>

text \<open>The closing of a card: the answer panel.\<close>

definition render_close :: "env \<Rightarrow> nat \<Rightarrow> pyval \<Rightarrow> error + string" where
  \<open>render_close E i question =
     (case py_getitem question ''correct_answer'' of
        Inl e \<Rightarrow> Inl e
      | Inr answer \<Rightarrow>
         (case py_getitem question ''explanation'' of
            Inl e \<Rightarrow> Inl e
          | Inr explanation \<Rightarrow> Inr (
     ''\<newline>'' @
     ''            </div>\<newline>'' @
     ''            <div class='answer' id='answer-'' @ str_int (int i + 1) @
     [CHR 0x27] @ ''>\<newline>'' @
     ''                <strong>'' @ [CHR 0xE2, CHR 0x9C, CHR 0x85] @ '' Correct Answer:</strong> '' @ py_str E answer @
     ''<br>\<newline>'' @
     ''                <em>'' @ [CHR 0xF0, CHR 0x9F, CHR 0x92, CHR 0xA1] @ '' Explanation:</em> '' @ py_str E explanation @
     ''\<newline>'' @
     ''            </div>\<newline>'' @
     ''        </div>\<newline>'' @
     ''        '')))\<close>

text \<open>The body of the outer loop for the item at index \<open>i\<close>.\<close>

definition render_question :: "env \<Rightarrow> nat \<Rightarrow> pyval \<Rightarrow> error + string" where
  "render_question E i question =
     (case render_open E i question of
        Inl e \<Rightarrow> Inl e
      | Inr opening \<Rightarrow>
         (case py_getitem question ''options'' of
            Inl e \<Rightarrow> Inl e
          | Inr options \<Rightarrow>
             (case py_iter options of
                Inl e \<Rightarrow> Inl e
              | Inr opts \<Rightarrow>
                 (case render_options E i question opts of
                    Inl e \<Rightarrow> Inl e
                  | Inr body \<Rightarrow>
                     (case render_close E i question of
                        Inl e \<Rightarrow> Inl e
                      | Inr closing \<Rightarrow> Inr (opening @ body @ closing))))))"

fun render_questions :: "env \<Rightarrow> nat \<Rightarrow> pyval list \<Rightarrow> error + string" where
  "render_questions E i [] = Inr []"
| "render_questions E i (question # rest) =
     (case render_question E i question of
        Inl e \<Rightarrow> Inl e
      | Inr s \<Rightarrow> (case render_questions E (Suc i) rest of Inl e \<Rightarrow> Inl e | Inr t \<Rightarrow> Inr (s @ t)))"

definition format_quiz_with_reveal :: "env \<Rightarrow> pyval \<Rightarrow> error + string" where
  "format_quiz_with_reveal E quiz_data =
     (case py_iter quiz_data of
        Inl e \<Rightarrow> Inl e
      | Inr items \<Rightarrow>
         (case render_questions E 0 items of
            Inl e \<Rightarrow> Inl e
          | Inr cards \<Rightarrow> Inr (html_head @ cards @ html_tail)))"

section \<open>The entry point\<close>

record quiz_result =
  quiz_data :: pyval
  formatted_quiz :: "string option"

definition quiz_try :: "env \<Rightarrow> string \<Rightarrow> string \<Rightarrow> int \<Rightarrow> bool \<Rightarrow> nat \<Rightarrow> (error + quiz_result) \<times> nat" where
  "quiz_try E subject level num_questions reveal_answer k =
     (case generate_quiz_data E subject level num_questions k of
        (Inl e, k') \<Rightarrow> (Inl e, k')
      | (Inr qd, k') \<Rightarrow>
         if reveal_answer then
           (case format_quiz_with_reveal E qd of
              Inl e \<Rightarrow> (Inl e, k')
            | Inr html \<Rightarrow> (Inr \<lparr>quiz_data = qd, formatted_quiz = Some html\<rparr>, k'))
         else (Inr \<lparr>quiz_data = qd, formatted_quiz = None\<rparr>, k'))"

definition generate_quiz :: "env \<Rightarrow> string \<Rightarrow> string \<Rightarrow> int \<Rightarrow> bool \<Rightarrow> nat \<Rightarrow> (error + quiz_result) \<times> nat" where
  "generate_quiz E subject level num_questions reveal_answer k =
     (case quiz_try E subject level num_questions reveal_answer k of
        (Inl e, k') \<Rightarrow> (Inl (ExceptionFrom ''Failed to generate quiz: '' e), k')
      | (Inr r, k') \<Rightarrow> (Inr r, k'))"

section \<open>Properties of a quiz item, as a caller reads them\<close>

text \<open>The item has a list of exactly four options.\<close>

definition has_four_options :: "pyval \<Rightarrow> bool" where
  "has_four_options q =
     (case py_getitem q ''options'' of Inr (PyList opts) \<Rightarrow> length opts = 4 | _ \<Rightarrow> False)"

text \<open>The item's \<^verbatim>\<open>correct_answer\<close> is equal to one of its options.\<close>

definition answer_among_options :: "pyval \<Rightarrow> bool" where
  "answer_among_options q =
     (case py_getitem q ''correct_answer'' of
        Inr answer \<Rightarrow> (case py_getitem q ''options'' of Inr (PyList opts) \<Rightarrow> py_in answer opts | _ \<Rightarrow> False)
      | _ \<Rightarrow> False)"

text \<open>The item has an \<^verbatim>\<open>explanation\<close> entry; and the entry is a string that is not empty.\<close>

definition has_explanation :: "pyval \<Rightarrow> bool" where
  "has_explanation q = (case py_getitem q ''explanation'' of Inr _ \<Rightarrow> True | _ \<Rightarrow> False)"


text \<open>The item's options are pairwise different.\<close>

definition options_distinct :: "pyval \<Rightarrow> bool" where
  "options_distinct q =
     (case py_getitem q ''options'' of Inr (PyList opts) \<Rightarrow> distinct opts | _ \<Rightarrow> False)"

text \<open>
  The number of options that the membership test \<^verbatim>\<open>in\<close> matches with the item's
  \<^verbatim>\<open>correct_answer\<close> (identical or equal), and the number of options that are \<^verbatim>\<open>==\<close> to it.
\<close>

definition matching_options :: "pyval \<Rightarrow> nat" where
  "matching_options q =
     (case py_getitem q ''correct_answer'' of
        Inr answer \<Rightarrow>
          (case py_getitem q ''options'' of
             Inr (PyList opts) \<Rightarrow> length (filter (\<lambda>y. py_eq y answer) opts)
           | _ \<Rightarrow> 0)
      | _ \<Rightarrow> 0)"

definition equal_options :: "pyval \<Rightarrow> nat" where
  "equal_options q =
     (case py_getitem q ''correct_answer'' of
        Inr answer \<Rightarrow>
          (case py_getitem q ''options'' of
             Inr (PyList opts) \<Rightarrow> length (filter (\<lambda>y. py_eq_op y answer) opts)
           | _ \<Rightarrow> 0)
      | _ \<Rightarrow> 0)"

text \<open>
  An item with all four entries: a question text, four options, an answer among them and an
  explanation.
\<close>

definition complete_question :: "pyval \<Rightarrow> bool" where
  "complete_question q =
     (case q of
        PyDict kvs \<Rightarrow>
          map_of kvs ''question'' \<noteq> None \<and> has_four_options q \<and> answer_among_options q \<and>
          has_explanation q
      | _ \<Rightarrow> False)"

text \<open>
  An environment for examples: the client is constructed, every invocation answers the text
  \<open>t\<close>, and \<^verbatim>\<open>json.loads\<close> has the outcome \<open>out\<close> on \<open>t\<close> and raises JSONDecodeError on every
  other text.
\<close>

definition answering :: "string \<Rightarrow> error + pyval \<Rightarrow> env" where
  "answering t out =
     \<lparr>llm_init = None,
      llm_call = (\<lambda>k prompt. Inr (RObject (Some t) None)),
      json_loads = (\<lambda>s. if s = t then out else Inl JSONDecodeError),
      py_repr = (\<lambda>x. ''<repr>'')\<rparr>"

section \<open>Capability outputs used as examples\<close>

text \<open>The two-question answer of the specification's example; the first item has no explanation.\<close>

definition algebra_text :: string where
  \<open>algebra_text =
     ''[{"question":"What is 2+2?","options":["3","4","5","6"],"correct_answer":"4"}, '' @
     ''{"question":"Solve x+1=2","options":["0","1","2","3"],"correct_answer":"1","explanation":"Subtract 1."}]''\<close>

definition algebra_first :: pyval where
  "algebra_first = PyDict
     [(''question'', PyStr ''What is 2+2?''),
      (''options'', PyList [PyStr ''3'', PyStr ''4'', PyStr ''5'', PyStr ''6'']),
      (''correct_answer'', PyStr ''4'')]"

definition algebra_second :: pyval where
  "algebra_second = PyDict
     [(''question'', PyStr ''Solve x+1=2''),
      (''options'', PyList [PyStr ''0'', PyStr ''1'', PyStr ''2'', PyStr ''3'']),
      (''correct_answer'', PyStr ''1''),
      (''explanation'', PyStr ''Subtract 1.'')]"


definition blank_item :: pyval where
  "blank_item = PyDict
     [(''question'', PyStr ''Q''),
      (''options'', PyList [PyStr ''a'', PyStr ''b'', PyStr ''c'', PyStr ''d'']),
      (''correct_answer'', PyStr ''a''),
      (''explanation'', PyStr '''')]"

text \<open>An item whose four options are the same string.\<close>

definition repeated_text :: string where
  \<open>repeated_text =
     ''[{"question":"Q","options":["a","a","a","a"],"correct_answer":"a","explanation":"E"}]''\<close>

definition repeated_item :: pyval where
  "repeated_item = PyDict
     [(''question'', PyStr ''Q''),
      (''options'', PyList [PyStr ''a'', PyStr ''a'', PyStr ''a'', PyStr ''a'']),
      (''correct_answer'', PyStr ''a''),
      (''explanation'', PyStr ''E'')]"

text \<open>An array holding a valid item and \<^verbatim>\<open>null\<close>; and a JSON text that is a number.\<close>

definition mixed_text :: string where
  \<open>mixed_text =
     ''[{"question":"Solve x+1=2","options":["0","1","2","3"],"correct_answer":"1","explanation":"Subtract 1."}, null]''\<close>

definition number_text :: string where
  "number_text = ''5''"

text \<open>A text of a thousand opening brackets: not valid JSON, and nested beyond the recursion limit.\<close>

definition deep_text :: string where
  "deep_text = replicate 1000 (CHR ''['')"

text \<open>
  An item whose answer and first option are \<^verbatim>\<open>NaN\<close>, which \<^verbatim>\<open>json.loads\<close> accepts and reads
  as its one shared NaN float.
\<close>

definition nan_text :: string where
  \<open>nan_text =
     ''[{"question":"Q","options":[NaN,1,2,3],"correct_answer":NaN,"explanation":"E"}]''\<close>

definition nan_item :: pyval where
  "nan_item = PyDict
     [(''question'', PyStr ''Q''),
      (''options'', PyList [PyFloat NaN, PyInt 1, PyInt 2, PyInt 3]),
      (''correct_answer'', PyFloat NaN),
      (''explanation'', PyStr ''E'')]"

section \<open>Verification\<close>

subsection \<open>What validation establishes\<close>

lemma validate_question_dict:
  assumes "validate_question q = Inr ()"
  shows "\<exists>kvs opts answer. q = PyDict kvs \<and> map_of kvs ''question'' \<noteq> None \<and>
           map_of kvs ''options'' = Some (PyList opts) \<and> length opts = 4 \<and>
           map_of kvs ''correct_answer'' = Some answer \<and> py_in answer opts"
proof (cases q)
  case (PyDict kvs)
  with assms show ?thesis
    by (auto simp: validate_question_def split: sum.splits bool.splits option.splits pyval.splits if_splits)
qed (use assms in \<open>auto simp: validate_question_def split: sum.splits bool.splits if_splits\<close>)

lemma validate_items_iff:
  "validate_items qs = Inr () \<longleftrightarrow> (\<forall>q\<in>set qs. validate_question q = Inr ())"
  by (induction qs) (auto split: sum.splits)

lemma validate_question_PyStr: "validate_question (PyStr s) \<noteq> Inr ()"
  using validate_question_dict[of "PyStr s"] by auto

lemma utf8_chars_Nil: "utf8_chars s = [] \<longleftrightarrow> s = []"
  by (cases s) auto

lemma validate_quiz_data_shape:
  assumes "validate_quiz_data v = Inr ()"
  shows "(\<exists>qs. v = PyList qs \<and> (\<forall>q\<in>set qs. validate_question q = Inr ())) \<or> v = PyDict [] \<or> v = PyStr []"
proof (cases v)
  case (PyList qs)
  with assms show ?thesis by (simp add: validate_quiz_data_def validate_items_iff)
next
  case (PyDict kvs)
  with assms show ?thesis
    by (cases kvs) (auto simp: validate_quiz_data_def validate_question_PyStr split: sum.splits)
next
  case (PyStr s)
  with assms show ?thesis
    by (cases "utf8_chars s") (auto simp: validate_quiz_data_def validate_question_PyStr utf8_chars_Nil split: sum.splits)
qed (use assms in \<open>auto simp: validate_quiz_data_def\<close>)

lemma update_absent: "map_of kvs k = None \<Longrightarrow> AList.update k v kvs = kvs @ [(k, v)]"
  by (induction kvs) (auto split: if_splits)

lemma backfill_items_iff:
  "backfill_items E qs = Inr rs \<longleftrightarrow> list_all2 (\<lambda>q r. backfill_question E q = Inr r) qs rs"
proof (induction qs arbitrary: rs)
  case Nil
  show ?case by auto
next
  case (Cons q qs)
  show ?case
    by (cases rs) (auto simp: Cons.IH[symmetric] split: sum.splits)
qed

subsection \<open>Back-filling and truncation\<close>

lemma fallback_question_complete: "complete_question (fallback_question subject i)"
  by (simp add: complete_question_def fallback_question_def has_four_options_def
      answer_among_options_def has_explanation_def py_in_def)

lemma backfill_question_valid:
  assumes "validate_question q = Inr ()"
  shows "\<exists>r. backfill_question E q = Inr r \<and> complete_question r"
proof -
  from validate_question_dict[OF assms] obtain kvs opts answer where
    q: "q = PyDict kvs" and t: "map_of kvs ''question'' \<noteq> None"
    and o: "map_of kvs ''options'' = Some (PyList opts)" "length opts = 4"
    and a: "map_of kvs ''correct_answer'' = Some answer" "py_in answer opts"
    by blast
  show ?thesis
  proof (cases "map_of kvs ''explanation''")
    case None
    then show ?thesis using q t o a
      by (auto simp: backfill_question_def complete_question_def has_four_options_def
          answer_among_options_def has_explanation_def update_absent map_add_def split: option.splits)
  next
    case (Some e)
    then show ?thesis using q t o a
      by (auto simp: backfill_question_def complete_question_def has_four_options_def
          answer_among_options_def has_explanation_def)
  qed
qed

lemma backfill_items_valid:
  assumes "\<forall>q\<in>set qs. validate_question q = Inr ()"
  shows "\<exists>rs. backfill_items E qs = Inr rs \<and> length rs = length qs \<and> (\<forall>r\<in>set rs. complete_question r)"
  using assms
proof (induction qs)
  case Nil
  show ?case by simp
next
  case (Cons q qs)
  from Cons obtain rs where rs: "backfill_items E qs = Inr rs" "length rs = length qs"
    "\<forall>r\<in>set rs. complete_question r" by auto
  from Cons.prems backfill_question_valid[of q E] obtain r where
    r: "backfill_question E q = Inr r" "complete_question r" by auto
  show ?case using rs r by simp
qed

lemma set_py_take: "set (py_take n xs) \<subseteq> set xs"
  by (auto simp: py_take_def dest: in_set_takeD)

lemma length_py_take: "0 \<le> n \<Longrightarrow> length (py_take n xs) = min (length xs) (nat n)"
  by (simp add: py_take_def)

lemma parse_try_list:
  assumes "\<forall>q\<in>set qs. validate_question q = Inr ()"
  shows "\<exists>rs. parse_try E (PyList qs) n = Inr (PyList rs) \<and>
           backfill_items E (if int (length qs) > n then py_take n qs else qs) = Inr rs"
proof -
  let ?ts = "if int (length qs) > n then py_take n qs else qs"
  have "\<forall>q\<in>set ?ts. validate_question q = Inr ()"
    using assms set_py_take[of n qs] by auto
  from backfill_items_valid[OF this, of E] obtain rs where "backfill_items E ?ts = Inr rs" by blast
  moreover have "validate_quiz_data (PyList qs) = Inr ()"
    using assms by (simp add: validate_quiz_data_def validate_items_iff)
  ultimately show ?thesis
    by (auto simp: parse_try_def backfill_all_def)
qed

subsection \<open>The parser's result, and rendering it\<close>

lemma py_iter_fallback:
  "py_iter (create_fallback_quiz subject n) = Inr (map (fallback_question subject) [0..<nat n])"
  by (simp add: create_fallback_quiz_def)

lemma parse_try_good:
  assumes "parse_try E qd n = Inr v"
  shows "\<exists>items. py_iter v = Inr items \<and> (\<forall>q\<in>set items. complete_question q) \<and>
           (0 \<le> n \<longrightarrow> int (length items) \<le> n)"
proof -
  from assms have val: "validate_quiz_data qd = Inr ()"
    by (auto simp: parse_try_def split: sum.splits)
  from validate_quiz_data_shape[OF val] consider
    (list) qs where "qd = PyList qs" "\<forall>q\<in>set qs. validate_question q = Inr ()"
    | (dict) "qd = PyDict []" | (str) "qd = PyStr []" by blast
  then show ?thesis
  proof cases
    case list
    let ?ts = "if int (length qs) > n then py_take n qs else qs"
    from parse_try_list[OF list(2), of E n] assms list(1) obtain rs where
      v: "v = PyList rs" and rs: "backfill_items E ?ts = Inr rs" by auto
    have "\<forall>q\<in>set ?ts. validate_question q = Inr ()"
      using list(2) set_py_take[of n qs] by auto
    from backfill_items_valid[OF this, of E] rs have
      len: "length rs = length ?ts" and ok: "\<forall>r\<in>set rs. complete_question r" by auto
    have "0 \<le> n \<longrightarrow> int (length ?ts) \<le> n"
      by (auto simp: length_py_take)
    with v len ok show ?thesis by simp
  next
    case dict
    with assms show ?thesis
      by (auto simp: parse_try_def validate_quiz_data_def backfill_all_def split: if_splits)
  next
    case str
    with assms show ?thesis
      by (auto simp: parse_try_def validate_quiz_data_def backfill_all_def py_take_def split: if_splits)
  qed
qed

lemma parse_quiz_response_good:
  assumes "parse_quiz_response E c subject n = Inr v"
  shows "\<exists>items. py_iter v = Inr items \<and> (\<forall>q\<in>set items. complete_question q) \<and>
           (0 \<le> n \<longrightarrow> int (length items) \<le> n)"
proof -
  have fb: "\<exists>items. py_iter (create_fallback_quiz subject n) = Inr items \<and>
      (\<forall>q\<in>set items. complete_question q) \<and> (0 \<le> n \<longrightarrow> int (length items) \<le> n)"
    by (auto simp: py_iter_fallback fallback_question_complete)
  show ?thesis
  proof (cases "json_loads E c")
    case (Inl e)
    with assms have "v = create_fallback_quiz subject n"
      by (simp add: parse_quiz_response_def split: if_splits)
    with fb show ?thesis by simp
  next
    case loaded: (Inr qd)
    show ?thesis
    proof (cases "parse_try E qd n")
      case (Inl e)
      with loaded assms have "v = create_fallback_quiz subject n"
        by (simp add: parse_quiz_response_def split: if_splits)
      with fb show ?thesis by simp
    next
      case (Inr w)
      with loaded assms have "parse_try E qd n = Inr v"
        by (simp add: parse_quiz_response_def)
      then show ?thesis by (rule parse_try_good)
    qed
  qed
qed

lemma render_options_total:
  assumes "py_getitem q ''correct_answer'' = Inr a"
  shows "\<exists>s. render_options E i q opts = Inr s"
  by (induction opts) (auto simp: render_option_def assms)

lemma render_question_total:
  assumes "complete_question q"
  shows "\<exists>s. render_question E i q = Inr s"
proof -
  from assms obtain kvs where q: "q = PyDict kvs" 
    by (auto simp: complete_question_def split: pyval.splits)
  from assms q obtain t opts a e where
    "py_getitem q ''question'' = Inr t" "py_getitem q ''options'' = Inr (PyList opts)"
    "py_getitem q ''correct_answer'' = Inr a" "py_getitem q ''explanation'' = Inr e"
    by (auto simp: complete_question_def has_four_options_def answer_among_options_def
        has_explanation_def split: option.splits pyval.splits sum.splits)
  moreover from render_options_total[OF \<open>py_getitem q ''correct_answer'' = Inr a\<close>]
  obtain s where "render_options E i q opts = Inr s" by blast
  ultimately show ?thesis
    by (simp add: render_question_def render_open_def render_close_def)
qed

lemma render_questions_total:
  assumes "\<forall>q\<in>set items. complete_question q"
  shows "\<exists>s. render_questions E i items = Inr s"
  using assms
proof (induction items arbitrary: i)
  case Nil
  show ?case by simp
next
  case (Cons q items)
  from Cons.prems render_question_total[of q E i] obtain s where "render_question E i q = Inr s" by auto
  moreover from Cons obtain t where "render_questions E (Suc i) items = Inr t" by fastforce
  ultimately show ?case by simp
qed

lemma format_quiz_total:
  assumes "py_iter v = Inr items" "\<forall>q\<in>set items. complete_question q"
  shows "\<exists>html. format_quiz_with_reveal E v = Inr html"
  using render_questions_total[OF assms(2), of E 0] assms(1)
  by (auto simp: format_quiz_with_reveal_def)

lemma generate_quiz_Inr:
  assumes "generate_quiz E subject level n reveal k = (Inr r, j)"
  shows "\<exists>resp c. llm_init E = None \<and> llm_call E k (create_quiz_prompt subject level n) = Inr resp \<and>
           response_content resp = Inr c \<and> parse_quiz_response E c subject n = Inr (quiz_data r) \<and>
           j = Suc k \<and>
           formatted_quiz r = (if reveal then (case format_quiz_with_reveal E (quiz_data r) of
                                  Inr html \<Rightarrow> Some html | Inl e \<Rightarrow> None) else None) \<and>
           (reveal \<longrightarrow> (\<exists>html. format_quiz_with_reveal E (quiz_data r) = Inr html))"
  using assms
  by (auto simp: generate_quiz_def quiz_try_def generate_quiz_data_def get_llm_def Let_def
      split: sum.splits option.splits if_splits prod.splits)

lemma generate_quiz_returns:
  assumes "llm_init E = None"
    and "llm_call E k (create_quiz_prompt subject level n) = Inr resp"
    and "response_content resp = Inr c"
    and "parse_quiz_response E c subject n = Inr v"
  shows "\<exists>html. format_quiz_with_reveal E v = Inr html \<and>
           generate_quiz E subject level n reveal k =
             (Inr \<lparr>quiz_data = v, formatted_quiz = (if reveal then Some html else None)\<rparr>, Suc k)"
proof -
  from parse_quiz_response_good[OF assms(4)] obtain items where
    "py_iter v = Inr items" "\<forall>q\<in>set items. complete_question q" by blast
  from format_quiz_total[OF this, of E] obtain html where "format_quiz_with_reveal E v = Inr html" by blast
  then show ?thesis using assms
    by (auto simp: generate_quiz_def quiz_try_def generate_quiz_data_def get_llm_def)
qed

subsection \<open>Tutoring post-processing\<close>

text \<open>
  Claim C7.  The post-processing of the tutoring text is a string transform: for the learning
  style \<^verbatim>\<open>Visual\<close> the result is the text followed by the fixed visual-study-tip suffix, for
  \<^verbatim>\<open>Hands-on\<close> it is the text followed by the fixed practice-tip suffix, and for every other
  learning style it is the text itself.  The suffix is there once, not twice.
\<close>

theorem tutoring_suffix_once:
  "format_tutoring_response text ''Visual'' = text @ visual_suffix \<and>
   format_tutoring_response text ''Hands-on'' = text @ hands_on_suffix \<and>
   (style \<noteq> ''Visual'' \<and> style \<noteq> ''Hands-on'' \<longrightarrow> format_tutoring_response text style = text) \<and>
   format_tutoring_response text ''Visual'' \<noteq> text @ visual_suffix @ visual_suffix \<and>
   format_tutoring_response text ''Hands-on'' \<noteq> text @ hands_on_suffix @ hands_on_suffix"
  by (simp add: format_tutoring_response_def visual_suffix_def hands_on_suffix_def)

theorem tutoring_suffix_once_witness:
  "''Text-based'' \<noteq> ''Visual'' \<and> ''Text-based'' \<noteq> ''Hands-on'' \<and>
   format_tutoring_response ''Add the numbers.'' ''Text-based'' = ''Add the numbers.'' \<and>
   format_tutoring_response ''Add the numbers.'' ''Visual'' = ''Add the numbers.'' @ visual_suffix"
  using tutoring_suffix_once [of "''Add the numbers.''" "''Text-based''"] by simp

text \<open>
  Claim C10.  When the text read out of the capability's response is the empty string, the
  tutoring generator raises its generation error (and has made its one invocation); and
  whenever the generator returns a text, that text is the post-processing of a non-empty content
  read out of one of the known response shapes, so it is never empty nor a bare suffix.
\<close>

theorem empty_content_raises:
  "(\<forall>resp. llm_init E = None \<and>
       llm_call E k (create_tutoring_prompt subject level question style background language) = Inr resp \<and>
       extract_content resp = Inr (Some []) \<longrightarrow>
       generate_tutoring_response E subject level question style background language k =
         (Inl (ExceptionFrom ''Failed to generate tutoring response: ''
                (Exception ''LLM returned no usable response content.'')), Suc k)) \<and>
   (\<forall>text j. generate_tutoring_response E subject level question style background language k = (Inr text, j) \<longrightarrow>
       (\<exists>resp content. llm_call E k (create_tutoring_prompt subject level question style background language) = Inr resp \<and>
          extract_content resp = Inr (Some content) \<and> content \<noteq> [] \<and>
          text = format_tutoring_response content style \<and> text \<noteq> []))"
  by (auto simp: generate_tutoring_response_def tutoring_try_def get_llm_def format_tutoring_response_def
      split: sum.splits option.splits if_splits)

theorem empty_content_raises_witness:
  "generate_tutoring_response (answering '''' (Inl JSONDecodeError)) ''Math'' ''Beginner'' ''What is 2+2?'' ''Visual'' ''Unknown'' ''English'' 0 =
     (Inl (ExceptionFrom ''Failed to generate tutoring response: ''
            (Exception ''LLM returned no usable response content.'')), 1) \<and>
   generate_tutoring_response (answering ''Four.'' (Inl JSONDecodeError)) ''Math'' ''Beginner'' ''What is 2+2?'' ''Text-based'' ''Unknown'' ''English'' 0 =
     (Inr ''Four.'', 1) \<and>
   extract_content (RObject (Some ''Four.'') None) = Inr (Some ''Four.'') \<and> ''Four.'' \<noteq> []"
proof -
  have a: "llm_init (answering '''' (Inl JSONDecodeError)) = None \<and>
       llm_call (answering '''' (Inl JSONDecodeError)) 0 (create_tutoring_prompt ''Math'' ''Beginner'' ''What is 2+2?'' ''Visual'' ''Unknown'' ''English'') = Inr (RObject (Some '''') None) \<and>
       extract_content (RObject (Some '''') None) = Inr (Some [])"
    by (simp add: answering_def)
  have b: "generate_tutoring_response (answering ''Four.'' (Inl JSONDecodeError)) ''Math'' ''Beginner'' ''What is 2+2?'' ''Text-based'' ''Unknown'' ''English'' 0 =
     (Inr ''Four.'', 1)"
    by (simp add: generate_tutoring_response_def tutoring_try_def get_llm_def answering_def
        format_tutoring_response_def)
  from empty_content_raises [of "answering '''' (Inl JSONDecodeError)" 0 "''Math''" "''Beginner''" "''What is 2+2?''" "''Visual''" "''Unknown''" "''English''"] a
  have "generate_tutoring_response (answering '''' (Inl JSONDecodeError)) ''Math'' ''Beginner'' ''What is 2+2?'' ''Visual'' ''Unknown'' ''English'' 0 =
     (Inl (ExceptionFrom ''Failed to generate tutoring response: ''
            (Exception ''LLM returned no usable response content.'')), 1)"
    by simp
  moreover from empty_content_raises [of "answering ''Four.'' (Inl JSONDecodeError)" 0 "''Math''" "''Beginner''" "''What is 2+2?''" "''Text-based''" "''Unknown''" "''English''"] b
  have "extract_content (RObject (Some ''Four.'') None) = Inr (Some ''Four.'')" by simp
  ultimately show ?thesis using b by simp
qed

subsection \<open>Running the pipeline on an example\<close>

lemmas quiz_eval_defs =
  generate_quiz_def quiz_try_def generate_quiz_data_def get_llm_def answering_def
  parse_quiz_response_def parse_try_def validate_quiz_data_def validate_question_def
  backfill_all_def backfill_question_def py_in_def py_take_def

lemma algebra_run:
  "generate_quiz (answering algebra_text (Inr (PyList [algebra_first, algebra_second])))
      ''Algebra'' ''Beginner'' 2 False 0 =
    (Inr \<lparr>quiz_data = PyList
            [PyDict [(''question'', PyStr ''What is 2+2?''),
                     (''options'', PyList [PyStr ''3'', PyStr ''4'', PyStr ''5'', PyStr ''6'']),
                     (''correct_answer'', PyStr ''4''),
                     (''explanation'', PyStr ''The correct answer is 4.'')],
             algebra_second],
          formatted_quiz = None\<rparr>, 1)"
  by (simp add: quiz_eval_defs algebra_first_def algebra_second_def)

subsection \<open>The items a caller receives\<close>

lemma answer_matches: "answer_among_options q \<Longrightarrow> 0 < matching_options q"
  by (auto simp: answer_among_options_def matching_options_def py_in_def list_ex_iff filter_empty_conv
      split: sum.splits pyval.splits)

lemma complete_question_parts:
  "complete_question q \<Longrightarrow> has_four_options q \<and> answer_among_options q \<and> has_explanation q"
  by (auto simp: complete_question_def split: pyval.splits)



lemma generate_quiz_items:
  assumes "generate_quiz E subject level n reveal k = (Inr r, j)"
  shows "\<exists>items. py_iter (quiz_data r) = Inr items \<and> (\<forall>q\<in>set items. complete_question q) \<and>
           (0 \<le> n \<longrightarrow> int (length items) \<le> n)"
proof -
  from generate_quiz_Inr[OF assms] obtain c where
    "parse_quiz_response E c subject n = Inr (quiz_data r)" by blast
  then show ?thesis by (rule parse_quiz_response_good)
qed




lemma py_eq_NaN_left: "py_eq (PyFloat NaN) y \<longleftrightarrow> y = PyFloat NaN"
proof (cases y)
  case (PyFloat f)
  then show ?thesis by (cases f) simp_all
qed (auto split: option.splits)

lemma answer_equals_option:
  assumes "answer_among_options q" and "py_getitem q ''correct_answer'' \<noteq> Inr (PyFloat NaN)"
  shows "0 < equal_options q"
proof -
  from assms(1) obtain answer opts y where
    a: "py_getitem q ''correct_answer'' = Inr answer"
    and o: "py_getitem q ''options'' = Inr (PyList opts)"
    and y: "y \<in> set opts" "py_eq y answer"
    by (auto simp: answer_among_options_def py_in_def list_ex_iff split: sum.splits pyval.splits)
  from a assms(2) have n: "answer \<noteq> PyFloat NaN" by simp
  have "y \<noteq> PyFloat NaN"
  proof
    assume "y = PyFloat NaN"
    with y(2) have "py_eq (PyFloat NaN) answer" by simp
    then have "answer = PyFloat NaN" by (simp only: py_eq_NaN_left)
    with n show False by simp
  qed
  with n y(2) have "py_eq_op y answer" by (simp add: py_eq_op_def)
  with y(1) have "filter (\<lambda>y. py_eq_op y answer) opts \<noteq> []"
    by (auto simp: filter_empty_conv)
  with a o show ?thesis by (simp add: equal_options_def)
qed

text \<open>
  Claim C9, as amended.  Every item of a returned quiz has a list of exactly four options, and its
  \<^verbatim>\<open>correct_answer\<close> is found among them by the membership test \<^verbatim>\<open>in\<close>, which matches an
  option that is identical or equal to it.  Unless the answer is the NaN float, it is \<^verbatim>\<open>==\<close> to
  at least one option.  The options need not be pairwise different, nor strings, so the answer
  may equal several of them, or (for NaN) none.
\<close>

theorem returned_options_four:
  assumes "generate_quiz E subject level n reveal k = (Inr r, j)"
  shows "\<exists>items. py_iter (quiz_data r) = Inr items \<and>
           (\<forall>q\<in>set items. has_four_options q \<and> answer_among_options q \<and>
              0 < matching_options q \<and>
              (py_getitem q ''correct_answer'' \<noteq> Inr (PyFloat NaN) \<longrightarrow> 0 < equal_options q))"
proof -
  from generate_quiz_items[OF assms] obtain items where
    items: "py_iter (quiz_data r) = Inr items" "\<forall>q\<in>set items. complete_question q" by blast
  have "has_four_options q \<and> answer_among_options q \<and> 0 < matching_options q \<and>
      (py_getitem q ''correct_answer'' \<noteq> Inr (PyFloat NaN) \<longrightarrow> 0 < equal_options q)"
    if "q \<in> set items" for q
    using that items(2) complete_question_parts[of q] answer_matches[of q] answer_equals_option[of q]
    by blast
  with items(1) show ?thesis by blast
qed

text \<open>
  The claim as first stated asks for four pairwise different display strings and an answer equal
  to exactly one of them.  Validation compares nothing between the options and tests the answer
  with \<^verbatim>\<open>in\<close>: an item whose four options are the same string is returned, and its answer is
  equal to all four; an item whose answer and first option are NaN is returned, and its answer is
  equal to none.
\<close>

theorem unchecked_options_counterexample:
  "generate_quiz (answering repeated_text (Inr (PyList [repeated_item]))) ''Algebra'' ''Beginner'' 1 False 0 =
     (Inr \<lparr>quiz_data = PyList [repeated_item], formatted_quiz = None\<rparr>, 1) \<and>
   \<not> options_distinct repeated_item \<and> equal_options repeated_item = 4 \<and>
   generate_quiz (answering nan_text (Inr (PyList [nan_item]))) ''Algebra'' ''Beginner'' 1 False 0 =
     (Inr \<lparr>quiz_data = PyList [nan_item], formatted_quiz = None\<rparr>, 1) \<and>
   equal_options nan_item = 0"
  by (simp add: quiz_eval_defs repeated_item_def nan_item_def options_distinct_def
      equal_options_def py_eq_op_def)

lemma repeated_run:
  "generate_quiz (answering repeated_text (Inr (PyList [repeated_item]))) ''Algebra'' ''Beginner'' 3 False 0 =
     (Inr \<lparr>quiz_data = PyList [repeated_item], formatted_quiz = None\<rparr>, 1)"
  by (simp add: quiz_eval_defs repeated_item_def)

theorem returned_options_four_witness:
  "generate_quiz (answering repeated_text (Inr (PyList [repeated_item]))) ''Algebra'' ''Beginner'' 3 False 0 =
     (Inr \<lparr>quiz_data = PyList [repeated_item], formatted_quiz = None\<rparr>, 1) \<and>
   py_getitem repeated_item ''correct_answer'' \<noteq> Inr (PyFloat NaN) \<and>
   has_four_options repeated_item \<and> answer_among_options repeated_item \<and>
   0 < matching_options repeated_item \<and> 0 < equal_options repeated_item"
proof -
  have h: "py_getitem repeated_item ''correct_answer'' \<noteq> Inr (PyFloat NaN)"
    by (simp add: repeated_item_def)
  from returned_options_four [OF repeated_run] repeated_run h show ?thesis by simp
qed

text \<open>
  Claim C4.  Every malformed output of the capability, be it a JSON parse failure or a schema
  violation, is to be recovered by the fallback quiz, so that \<^verbatim>\<open>generate_quiz\<close> returns.
  The handler catches JSONDecodeError and ValueError only.  For the output \<^verbatim>\<open>5\<close>, which
  \<^verbatim>\<open>json.loads\<close> reads as a number, the validation loop raises TypeError, which is not caught
  there: \<^verbatim>\<open>generate_quiz\<close> raises.
\<close>
theorem number_output_raises:
  "json_loads (answering number_text (Inr (PyInt 5))) number_text = Inr (PyInt 5) \<and>
   generate_quiz (answering number_text (Inr (PyInt 5))) ''Algebra'' ''Beginner'' 2 True 0 =
    (Inl (ExceptionFrom ''Failed to generate quiz: '' TypeError), 1)"
  by (simp add: quiz_eval_defs)

text \<open>
  Claim C3.  Validation is all-or-nothing: when any element of the parsed array violates the
  schema, the whole batch is to be replaced by the fallback quiz.  For an array that holds a
  valid item followed by \<^verbatim>\<open>null\<close>, the batch is not replaced: the membership test on
  \<^verbatim>\<open>None\<close> raises TypeError, the handler does not catch it, and \<^verbatim>\<open>generate_quiz\<close> raises.
\<close>

theorem mixed_batch_raises:
  "validate_question algebra_second = Inr () \<and>
   generate_quiz (answering mixed_text (Inr (PyList [algebra_second, PyNone]))) ''Algebra'' ''Beginner'' 2 False 0 =
    (Inl (ExceptionFrom ''Failed to generate quiz: '' TypeError), 1)"
  by (simp add: quiz_eval_defs algebra_second_def)

subsection \<open>Fallback, truncation and back-filling\<close>

lemma generate_quiz_valid_list:
  assumes "llm_init E = None"
    and "llm_call E k (create_quiz_prompt subject level n) = Inr resp"
    and "response_content resp = Inr text"
    and "json_loads E text = Inr (PyList qs)"
    and "validate_quiz_data (PyList qs) = Inr ()"
  shows "\<exists>rs html. generate_quiz E subject level n reveal k =
             (Inr \<lparr>quiz_data = PyList rs, formatted_quiz = (if reveal then Some html else None)\<rparr>, Suc k) \<and>
           backfill_items E (if int (length qs) > n then py_take n qs else qs) = Inr rs"
proof -
  from assms(5) have "\<forall>q\<in>set qs. validate_question q = Inr ()"
    by (simp add: validate_quiz_data_def validate_items_iff)
  from parse_try_list[OF this, of E n] obtain rs where
    rs: "parse_try E (PyList qs) n = Inr (PyList rs)"
      "backfill_items E (if int (length qs) > n then py_take n qs else qs) = Inr rs" by blast
  from rs(1) assms(4) have "parse_quiz_response E text subject n = Inr (PyList rs)"
    by (simp add: parse_quiz_response_def)
  from generate_quiz_returns[OF assms(1-3) this, of reveal] rs(2) show ?thesis by blast
qed

text \<open>
  The parse failures that the handler recovers.  When \<^verbatim>\<open>json.loads\<close> raises JSONDecodeError or
  another ValueError, \<^verbatim>\<open>generate_quiz\<close> returns (after its one invocation) the fallback quiz:
  for \<open>0 \<le> numQuestions\<close> exactly \<open>numQuestions\<close> items, the \<open>i\<close>-th being the fixed template
  numbered \<open>i + 1\<close>, with nothing of the capability's text in it.
\<close>

lemma caught_parse_failure_fallback:
  assumes "llm_init E = None"
    and "llm_call E k (create_quiz_prompt subject level n) = Inr resp"
    and "response_content resp = Inr text"
    and "json_loads E text = Inl e"
    and "is_caught e"
    and "0 \<le> n"
  shows "\<exists>qs html. generate_quiz E subject level n reveal k =
             (Inr \<lparr>quiz_data = PyList qs, formatted_quiz = (if reveal then Some html else None)\<rparr>, Suc k) \<and>
           int (length qs) = n \<and>
           (\<forall>i<length qs. qs ! i = PyDict
              [(''question'', PyStr (''Sample '' @ subject @ '' question '' @ str_int (int i + 1))),
               (''options'', PyList [PyStr ''Option A'', PyStr ''Option B'', PyStr ''Option C'', PyStr ''Option D'']),
               (''correct_answer'', PyStr ''Option A''),
               (''explanation'', PyStr ''This is a fallback explanation.'')])"
proof -
  let ?qs = "map (fallback_question subject) [0..<nat n]"
  from assms(4,5) have "parse_quiz_response E text subject n = Inr (PyList ?qs)"
    by (simp add: parse_quiz_response_def create_fallback_quiz_def)
  from generate_quiz_returns[OF assms(1-3) this, of reveal] obtain html where
    "generate_quiz E subject level n reveal k =
       (Inr \<lparr>quiz_data = PyList ?qs, formatted_quiz = (if reveal then Some html else None)\<rparr>, Suc k)"
    by blast
  moreover have "int (length ?qs) = n" using assms(6) by simp
  moreover have "\<forall>i<length ?qs. ?qs ! i = PyDict
              [(''question'', PyStr (''Sample '' @ subject @ '' question '' @ str_int (int i + 1))),
               (''options'', PyList [PyStr ''Option A'', PyStr ''Option B'', PyStr ''Option C'', PyStr ''Option D'']),
               (''correct_answer'', PyStr ''Option A''),
               (''explanation'', PyStr ''This is a fallback explanation.'')]"
    by (simp add: fallback_question_def)
  ultimately show ?thesis by blast
qed

lemma upt_two: "[0..<2] = [0, Suc 0]"
  by code_simp

lemma fallback_run:
  "generate_quiz (answering ''Sure! Here is your quiz:'' (Inl JSONDecodeError)) ''Algebra'' ''Beginner'' 2 False 0 =
     (Inr \<lparr>quiz_data = PyList
        [PyDict [(''question'', PyStr ''Sample Algebra question 1''),
                 (''options'', PyList [PyStr ''Option A'', PyStr ''Option B'', PyStr ''Option C'', PyStr ''Option D'']),
                 (''correct_answer'', PyStr ''Option A''),
                 (''explanation'', PyStr ''This is a fallback explanation.'')],
         PyDict [(''question'', PyStr ''Sample Algebra question 2''),
                 (''options'', PyList [PyStr ''Option A'', PyStr ''Option B'', PyStr ''Option C'', PyStr ''Option D'']),
                 (''correct_answer'', PyStr ''Option A''),
                 (''explanation'', PyStr ''This is a fallback explanation.'')]],
        formatted_quiz = None\<rparr>, 1)"
  by (simp add: quiz_eval_defs create_fallback_quiz_def fallback_question_def
      str_int_def str_nat.simps digit_char_def upt_two)

text \<open>
  Claim C2.  When the text the capability returns is not valid JSON, \<^verbatim>\<open>generate_quiz\<close> is to
  return the fallback quiz of exactly \<open>numQuestions\<close> template items and never to raise.  On a
  text of a thousand opening brackets, which is not valid JSON, \<^verbatim>\<open>json.loads\<close> raises
  RecursionError; that is not a ValueError, so the handler does not catch it and
  \<^verbatim>\<open>generate_quiz\<close> raises.
\<close>

theorem deep_nesting_raises:
  "json_loads (answering deep_text (Inl RecursionError)) deep_text = Inl RecursionError \<and>
   \<not> is_caught RecursionError \<and>
   generate_quiz (answering deep_text (Inl RecursionError)) ''Algebra'' ''Beginner'' 2 False 0 =
     (Inl (ExceptionFrom ''Failed to generate quiz: '' RecursionError), 1)"
  by (simp add: quiz_eval_defs)

lemma length_py_take_le: "length (py_take n xs) \<le> length xs"
  unfolding py_take_def by (cases "0 \<le> n") simp_all

lemma py_take_nth: "i < length (py_take n xs) \<Longrightarrow> py_take n xs ! i = xs ! i"
  by (simp add: py_take_def split: if_splits)

lemma backfill_question_described:
  assumes "validate_question q = Inr ()" and "backfill_question E q = Inr r"
  shows "\<exists>kvs. q = PyDict kvs \<and>
           (if map_of kvs ''explanation'' = None
            then \<exists>a. map_of kvs ''correct_answer'' = Some a \<and>
                   r = PyDict (kvs @ [(''explanation'', PyStr (''The correct answer is '' @ py_str E a @ ''.''))])
            else r = q)"
proof -
  from validate_question_dict[OF assms(1)] obtain kvs a where
    "q = PyDict kvs" "map_of kvs ''correct_answer'' = Some a" by blast
  with assms(2) show ?thesis
    by (auto simp: backfill_question_def update_absent)
qed

text \<open>
  Claim C5.  When the validated batch has more than \<open>numQuestions\<close> items, the output has
  exactly \<open>numQuestions\<close> items, which are the first \<open>numQuestions\<close> items of the batch in
  their order (each as the back-filling loop leaves it); when the batch has no more than
  \<open>numQuestions\<close> items, the output has as many items as the batch.  Either way the capability
  has been invoked once.  \<open>numQuestions\<close> is a count, \<open>0 \<le> numQuestions\<close>.
\<close>

theorem overproduction_truncated:
  assumes "llm_init E = None"
    and "llm_call E k (create_quiz_prompt subject level n) = Inr resp"
    and "response_content resp = Inr text"
    and "json_loads E text = Inr (PyList qs)"
    and "validate_quiz_data (PyList qs) = Inr ()"
    and "0 \<le> n"
  shows "\<exists>rs html. generate_quiz E subject level n reveal k =
             (Inr \<lparr>quiz_data = PyList rs, formatted_quiz = (if reveal then Some html else None)\<rparr>, Suc k) \<and>
           list_all2 (\<lambda>q r. backfill_question E q = Inr r) (take (nat n) qs) rs \<and>
           (n < int (length qs) \<longrightarrow> int (length rs) = n) \<and>
           (int (length qs) \<le> n \<longrightarrow> length rs = length qs)"
proof -
  let ?ts = "if int (length qs) > n then py_take n qs else qs"
  from generate_quiz_valid_list[OF assms(1-5), of reveal] obtain rs html where
    run: "generate_quiz E subject level n reveal k =
       (Inr \<lparr>quiz_data = PyList rs, formatted_quiz = (if reveal then Some html else None)\<rparr>, Suc k)"
    and rs: "backfill_items E ?ts = Inr rs" by blast
  have ts: "?ts = take (nat n) qs" using assms(6) by (simp add: py_take_def)
  from rs ts have rel: "list_all2 (\<lambda>q r. backfill_question E q = Inr r) (take (nat n) qs) rs"
    by (simp add: backfill_items_iff)
  from list_all2_lengthD[OF rel] have "length rs = min (length qs) (nat n)" by simp
  with assms(6) have "(n < int (length qs) \<longrightarrow> int (length rs) = n) \<and>
      (int (length qs) \<le> n \<longrightarrow> length rs = length qs)" by auto
  with run rel show ?thesis by blast
qed

text \<open>
  Claim C6.  Every returned item comes from the item at the same position of the validated batch:
  when that item has no \<^verbatim>\<open>explanation\<close> key, the returned item is that item with the entry
  \<^verbatim>\<open>explanation\<close> added, holding exactly \<^verbatim>\<open>The correct answer is {correct_answer}.\<close> for the
  item's own \<^verbatim>\<open>correct_answer\<close>; when it has the key, the returned item is that item unchanged.
\<close>

theorem missing_explanation_backfilled:
  assumes "llm_init E = None"
    and "llm_call E k (create_quiz_prompt subject level n) = Inr resp"
    and "response_content resp = Inr text"
    and "json_loads E text = Inr (PyList qs)"
    and "validate_quiz_data (PyList qs) = Inr ()"
  shows "\<exists>rs html. generate_quiz E subject level n reveal k =
             (Inr \<lparr>quiz_data = PyList rs, formatted_quiz = (if reveal then Some html else None)\<rparr>, Suc k) \<and>
           length rs \<le> length qs \<and>
           (\<forall>i<length rs. \<exists>kvs. qs ! i = PyDict kvs \<and>
              (if map_of kvs ''explanation'' = None
               then \<exists>a. map_of kvs ''correct_answer'' = Some a \<and>
                      rs ! i = PyDict (kvs @
                        [(''explanation'', PyStr (''The correct answer is '' @ py_str E a @ ''.''))])
               else rs ! i = qs ! i))"
proof -
  let ?ts = "if int (length qs) > n then py_take n qs else qs"
  from generate_quiz_valid_list[OF assms(1-5), of reveal] obtain rs html where
    run: "generate_quiz E subject level n reveal k =
       (Inr \<lparr>quiz_data = PyList rs, formatted_quiz = (if reveal then Some html else None)\<rparr>, Suc k)"
    and rs: "backfill_items E ?ts = Inr rs" by blast
  from rs have rel: "list_all2 (\<lambda>q r. backfill_question E q = Inr r) ?ts rs"
    by (simp add: backfill_items_iff)
  have len: "length rs = length ?ts" using list_all2_lengthD[OF rel] by simp
  have le: "length rs \<le> length qs" using len length_py_take_le[of n qs] by (simp split: if_splits)
  have valid: "\<forall>q\<in>set qs. validate_question q = Inr ()"
    using assms(5) by (simp add: validate_quiz_data_def validate_items_iff)
  have "\<exists>kvs. qs ! i = PyDict kvs \<and>
              (if map_of kvs ''explanation'' = None
               then \<exists>a. map_of kvs ''correct_answer'' = Some a \<and>
                      rs ! i = PyDict (kvs @
                        [(''explanation'', PyStr (''The correct answer is '' @ py_str E a @ ''.''))])
               else rs ! i = qs ! i)" if i: "i < length rs" for i
  proof -
    from i len have it: "i < length ?ts" by simp
    have same: "?ts ! i = qs ! i" using it py_take_nth[of i n qs] by (simp split: if_splits)
    from list_all2_nthD[OF rel it] same have b: "backfill_question E (qs ! i) = Inr (rs ! i)" by simp
    from i le valid have "validate_question (qs ! i) = Inr ()" by simp
    from backfill_question_described[OF this b] show ?thesis .
  qed
  with run le show ?thesis by blast
qed

lemma algebra_valid: "validate_quiz_data (PyList [algebra_first, algebra_second]) = Inr ()"
  by (simp add: validate_quiz_data_def validate_question_def algebra_first_def algebra_second_def py_in_def)

theorem overproduction_truncated_witness:
  "validate_quiz_data (PyList [algebra_first, algebra_second]) = Inr () \<and> (0::int) \<le> 1 \<and>
   (1::int) < int (length [algebra_first, algebra_second]) \<and>
   (\<exists>rs. generate_quiz (answering algebra_text (Inr (PyList [algebra_first, algebra_second])))
            ''Algebra'' ''Beginner'' 1 False 0 =
          (Inr \<lparr>quiz_data = PyList rs, formatted_quiz = None\<rparr>, 1) \<and>
        int (length rs) = 1 \<and>
        list_all2 (\<lambda>q r. backfill_question (answering algebra_text (Inr (PyList [algebra_first, algebra_second]))) q = Inr r)
          [algebra_first] rs)"
proof -
  let ?E = "answering algebra_text (Inr (PyList [algebra_first, algebra_second]))"
  have h1: "llm_init ?E = None" by (simp add: answering_def)
  have h2: "llm_call ?E 0 (create_quiz_prompt ''Algebra'' ''Beginner'' 1) =
      Inr (RObject (Some algebra_text) None)" by (simp add: answering_def)
  have h3: "response_content (RObject (Some algebra_text) None) = Inr algebra_text" by simp
  have h4: "json_loads ?E algebra_text = Inr (PyList [algebra_first, algebra_second])"
    by (simp add: answering_def)
  have h6: "(0::int) \<le> 1" by simp
  from overproduction_truncated [OF h1 h2 h3 h4 algebra_valid h6, of False] algebra_valid
  show ?thesis by auto
qed

theorem missing_explanation_backfilled_witness:
  "validate_quiz_data (PyList [algebra_first, algebra_second]) = Inr () \<and>
   (\<exists>rs. generate_quiz (answering algebra_text (Inr (PyList [algebra_first, algebra_second])))
            ''Algebra'' ''Beginner'' 2 False 0 =
          (Inr \<lparr>quiz_data = PyList rs, formatted_quiz = None\<rparr>, 1) \<and>
        length rs = 2 \<and>
        rs ! 0 = PyDict [(''question'', PyStr ''What is 2+2?''),
                     (''options'', PyList [PyStr ''3'', PyStr ''4'', PyStr ''5'', PyStr ''6'']),
                     (''correct_answer'', PyStr ''4''),
                     (''explanation'', PyStr ''The correct answer is 4.'')] \<and>
        rs ! 1 = algebra_second)"
proof -
  let ?E = "answering algebra_text (Inr (PyList [algebra_first, algebra_second]))"
  have h1: "llm_init ?E = None" by (simp add: answering_def)
  have h2: "llm_call ?E 0 (create_quiz_prompt ''Algebra'' ''Beginner'' 2) =
      Inr (RObject (Some algebra_text) None)" by (simp add: answering_def)
  have h3: "response_content (RObject (Some algebra_text) None) = Inr algebra_text" by simp
  have h4: "json_loads ?E algebra_text = Inr (PyList [algebra_first, algebra_second])"
    by (simp add: answering_def)
  from missing_explanation_backfilled [OF h1 h2 h3 h4 algebra_valid, of False] algebra_run algebra_valid
  show ?thesis by simp
qed

subsection \<open>The renderer\<close>

lemma py_str_repr: "py_repr E1 = py_repr E2 \<Longrightarrow> py_str E1 = py_str E2"
proof (rule ext)
  fix v
  assume "py_repr E1 = py_repr E2"
  then show "py_str E1 v = py_str E2 v" by (cases v) simp_all
qed

lemma render_option_repr:
  assumes "py_repr E1 = py_repr E2"
  shows "render_option E1 = render_option E2"
  by (intro ext) (simp only: render_option_def py_str_repr[OF assms])

lemma render_options_repr:
  assumes "py_repr E1 = py_repr E2"
  shows "render_options E1 i q opts = render_options E2 i q opts"
  by (induction opts) (simp_all only: render_options.simps render_option_repr[OF assms])

lemma render_question_repr:
  assumes "py_repr E1 = py_repr E2"
  shows "render_question E1 i q = render_question E2 i q"
  by (simp only: render_question_def render_open_def render_close_def py_str_repr[OF assms]
      render_options_repr[OF assms])

lemma render_questions_repr:
  assumes "py_repr E1 = py_repr E2"
  shows "render_questions E1 i qs = render_questions E2 i qs"
  by (induction qs arbitrary: i) (simp_all only: render_questions.simps render_question_repr[OF assms])

text \<open>
  Claim C8.  The renderer is a function of the quiz data: its result is the same in any two
  environments (whatever the capability answers, whatever its history, whatever \<^verbatim>\<open>json.loads\<close>
  does) that share Python's \<^verbatim>\<open>repr\<close>.  The markup that \<^verbatim>\<open>generate_quiz\<close> returns is the
  renderer's result on the quiz data returned with it, and asking for the markup changes neither
  the quiz data nor the number of capability invocations.
\<close>

theorem render_depends_on_data_only:
  "(py_repr E1 = py_repr E2 \<longrightarrow> format_quiz_with_reveal E1 qd = format_quiz_with_reveal E2 qd) \<and>
   (generate_quiz E1 subject level n True k = (Inr r, j) \<longrightarrow>
      (\<exists>html. format_quiz_with_reveal E1 (quiz_data r) = Inr html \<and> formatted_quiz r = Some html) \<and>
      generate_quiz E1 subject level n False k = (Inr (r\<lparr>formatted_quiz := None\<rparr>), j))"
proof (intro conjI impI)
  assume same: "py_repr E1 = py_repr E2"
  show "format_quiz_with_reveal E1 qd = format_quiz_with_reveal E2 qd"
    by (simp only: format_quiz_with_reveal_def render_questions_repr[OF same])
next
  assume run: "generate_quiz E1 subject level n True k = (Inr r, j)"
  from generate_quiz_Inr[OF run]
  show "\<exists>html. format_quiz_with_reveal E1 (quiz_data r) = Inr html \<and> formatted_quiz r = Some html"
    by auto
next
  assume run: "generate_quiz E1 subject level n True k = (Inr r, j)"
  from generate_quiz_Inr[OF run] obtain resp c where
    "llm_init E1 = None" "llm_call E1 k (create_quiz_prompt subject level n) = Inr resp"
    "response_content resp = Inr c" "parse_quiz_response E1 c subject n = Inr (quiz_data r)" "j = Suc k"
    by blast
  then show "generate_quiz E1 subject level n False k = (Inr (r\<lparr>formatted_quiz := None\<rparr>), j)"
    by (simp add: generate_quiz_def quiz_try_def generate_quiz_data_def get_llm_def)
qed

theorem render_depends_on_data_only_witness:
  "py_repr (answering algebra_text (Inr (PyList [algebra_first, algebra_second]))) =
     py_repr (answering number_text (Inr (PyInt 5))) \<and>
   format_quiz_with_reveal (answering algebra_text (Inr (PyList [algebra_first, algebra_second]))) (PyList [blank_item]) =
     format_quiz_with_reveal (answering number_text (Inr (PyInt 5))) (PyList [blank_item]) \<and>
   generate_quiz (answering ''[]'' (Inr (PyList []))) ''Algebra'' ''Beginner'' 2 True 0 =
     (Inr \<lparr>quiz_data = PyList [], formatted_quiz = Some (html_head @ html_tail)\<rparr>, 1) \<and>
   generate_quiz (answering ''[]'' (Inr (PyList []))) ''Algebra'' ''Beginner'' 2 False 0 =
     (Inr \<lparr>quiz_data = PyList [], formatted_quiz = None\<rparr>, 1)"
proof -
  have same: "py_repr (answering algebra_text (Inr (PyList [algebra_first, algebra_second]))) =
     py_repr (answering number_text (Inr (PyInt 5)))"
    by (simp add: answering_def)
  have run: "generate_quiz (answering ''[]'' (Inr (PyList []))) ''Algebra'' ''Beginner'' 2 True 0 =
     (Inr \<lparr>quiz_data = PyList [], formatted_quiz = Some (html_head @ html_tail)\<rparr>, 1)"
    by (simp add: quiz_eval_defs format_quiz_with_reveal_def)
  from render_depends_on_data_only
    [of "answering algebra_text (Inr (PyList [algebra_first, algebra_second]))"
        "answering number_text (Inr (PyInt 5))" "PyList [blank_item]"] same
  have a: "format_quiz_with_reveal (answering algebra_text (Inr (PyList [algebra_first, algebra_second]))) (PyList [blank_item]) =
     format_quiz_with_reveal (answering number_text (Inr (PyInt 5))) (PyList [blank_item])"
    by blast
  from render_depends_on_data_only
    [of "answering ''[]'' (Inr (PyList []))" "answering ''[]'' (Inr (PyList []))" "PyList []"
        "''Algebra''" "''Beginner''" 2 0
        "\<lparr>quiz_data = PyList [], formatted_quiz = Some (html_head @ html_tail)\<rparr>" 1] run
  have b: "generate_quiz (answering ''[]'' (Inr (PyList []))) ''Algebra'' ''Beginner'' 2 False 0 =
     (Inr \<lparr>quiz_data = PyList [], formatted_quiz = None\<rparr>, 1)"
    by simp
  from same a run b show ?thesis by blast
qed

subsection \<open>All-or-nothing validation of a batch of objects\<close>

text \<open>
  When every element of the parsed array is a JSON object, each of the three checks fails with a
  ValueError, so one offending element makes the whole batch give way to the fallback quiz.
\<close>

lemma validate_question_dict_error:
  "validate_question (PyDict kvs) = Inl e \<Longrightarrow> is_caught e"
  by (auto simp: validate_question_def split: sum.splits bool.splits option.splits pyval.splits if_splits)

lemma validate_items_dicts_error:
  assumes "\<forall>q\<in>set qs. \<exists>kvs. q = PyDict kvs" and "validate_items qs = Inl e"
  shows "is_caught e"
  using assms
proof (induction qs)
  case Nil
  then show ?case by simp
next
  case (Cons q qs)
  then obtain kvs where q: "q = PyDict kvs" by auto
  show ?case
  proof (cases "validate_question q")
    case (Inl e')
    with Cons.prems(2) have "e' = e" by simp
    with Inl q show ?thesis using validate_question_dict_error by blast
  next
    case (Inr u)
    with Cons show ?thesis by simp
  qed
qed

lemma invalid_object_discards_batch:
  assumes "llm_init E = None"
    and "llm_call E k (create_quiz_prompt subject level n) = Inr resp"
    and "response_content resp = Inr text"
    and "json_loads E text = Inr (PyList qs)"
    and "\<forall>q\<in>set qs. \<exists>kvs. q = PyDict kvs"
    and "\<exists>q\<in>set qs. validate_question q \<noteq> Inr ()"
  shows "\<exists>html. generate_quiz E subject level n reveal k =
           (Inr \<lparr>quiz_data = create_fallback_quiz subject n,
                 formatted_quiz = (if reveal then Some html else None)\<rparr>, Suc k)"
proof -
  from assms(6) have "validate_items qs \<noteq> Inr ()" by (simp add: validate_items_iff)
  then obtain e where e: "validate_items qs = Inl e" by (cases "validate_items qs") auto
  from validate_items_dicts_error[OF assms(5) e] have c: "is_caught e" .
  from e have "parse_try E (PyList qs) n = Inl e"
    by (simp add: parse_try_def validate_quiz_data_def)
  with c assms(4) have "parse_quiz_response E text subject n = Inr (create_fallback_quiz subject n)"
    by (simp add: parse_quiz_response_def)
  from generate_quiz_returns[OF assms(1-3) this, of reveal] show ?thesis by blast
qed

end
